theory Spec2Isabelle
  imports Complex_Main
begin

section \<open>Conventions of the embedding\<close>

text \<open>
  The program is Python. Its numbers are Python ints and floats; the embedding reads
  both as \<^typ>\<open>real\<close> with exact arithmetic, so rounding error of the binary floats is
  not part of the model. A Python \<open>str\<close> is a \<^typ>\<open>string\<close> whose characters are code
  points below 256, so that \<open>len\<close> is \<^const>\<open>length\<close>; the letter a-grave of the
  Italian messages is the single character \<open>0xE0\<close>.

  Exceptions are values of \<open>error\<close>, returned on the left of a sum. \<open>NonFinite\<close> is not
  an exception: it marks the executions in which numpy or pandas produce the float NaN
  or an infinity (a mean or an extremum of no values, a logarithm of a non-positive
  number, a division by zero), which the real numbers cannot follow; the model stops
  there.
\<close>

datatype error =
    ValueError string
  | EmptySequence
  | ZeroDivisionError
  | IndexError
  | AttributeError
  | NonFinite

text \<open>\<open>EmptySequence\<close> is the \<open>ValueError\<close> that the built-ins \<open>min\<close> and \<open>max\<close> raise on
  an empty sequence (its message depends on the interpreter version).\<close>

fun py_min :: "real list \<Rightarrow> error + real" where
  "py_min [] = Inl EmptySequence"
| "py_min (x # xs) = Inr (fold min xs x)"

fun py_max :: "real list \<Rightarrow> error + real" where
  "py_max [] = Inl EmptySequence"
| "py_max (x # xs) = Inr (fold max xs x)"

text \<open>Python's \<open>round(x, ndigits)\<close> rounds to the nearest multiple of \<open>10 ^ - ndigits\<close>,
  a tie going to the even one.\<close>

definition round_half_even :: "real \<Rightarrow> int" where
  "round_half_even y =
     (let f = \<lfloor>y\<rfloor>; d = y - of_int f
      in if d < 1 / 2 then f
         else if d > 1 / 2 then f + 1
         else if even f then f else f + 1)"

definition py_round :: "real \<Rightarrow> nat \<Rightarrow> real" where
  "py_round x ndigits = of_int (round_half_even (x * 10 ^ ndigits)) / 10 ^ ndigits"

definition a_grave :: string where
  "a_grave = [CHR 0xE0]"

section \<open>The analysis report\<close>

text \<open>
  The report is the nested dict built by \<open>auto_ta_analysis\<close>. The dict \<open>fibonacci\<close> keeps
  its insertion order, so it is an association list from label to level. Each level is a
  one-element pandas Series (one column per ticker, one ticker); the model stores its
  element, which is what \<open>level[0]\<close> reads.
\<close>

record support_levels =
  fibonacci :: "(string \<times> real) list"
  cluster_minimi :: "real list"

record momentum_reading =
  valore :: real
  divergenza :: string

record volume_profile =
  sopra_media_perc :: real
  spike_supporto_perc :: real

record forecast =
  prob_Bx_gt_target :: real
  bull_case :: real
  base_case :: real
  bear_case :: real
  volatilita_giornaliera :: real

record report =
  supporti :: support_levels
  rsi :: momentum_reading
  volumi :: volume_profile
  montecarlo :: forecast

section \<open>Decision scorer (ta\_report\_feedback.py)\<close>

text \<open>
  Every filter takes the running score and the list of warnings and returns both:
  the source mutates the list in place and returns the score. \<open>fmt\<close> is the text that
  an f-string gives for a number (Python's own float formatting, not code of the
  repository).
\<close>

definition rsi_fb :: "(real \<Rightarrow> string) \<Rightarrow> report \<Rightarrow> real \<Rightarrow> string list \<Rightarrow> real \<times> string list" where
  "rsi_fb fmt report score warnings =
     (let rsi_val = valore (rsi report);
          rsi_div = divergenza (rsi report);
          (score, warnings) =
            (if rsi_div = ''nessuna'' then (score + 1, warnings)
             else if rsi_div = ''positiva'' then
               (score + 1,
                warnings @ [''Divergenza RSI positiva: possibile inversione rialzista.''])
             else if rsi_div = ''negativa'' then
               (score,
                warnings @ [''Divergenza RSI negativa: possibile inversione ribassista.''])
             else (score, warnings))
      in if rsi_val > 70 then
           (score,
            warnings @ [''RSI molto alto ('' @ fmt rsi_val @ ''): rischio ipercomprato.''])
         else if rsi_val < 30 then
           (score + 0.5,
            warnings @ [''RSI molto basso ('' @ fmt rsi_val @ ''): possibile rimbalzo tecnico.''])
         else (score, warnings))"

definition near_support_warning :: string where
  "near_support_warning = ''Prezzo vicino a un supporto chiave: rischio drawdown limitato.''"

definition near_resistance_warning :: string where
  "near_resistance_warning =
     ''Prezzo vicino a una resistenza importante: attenzione a possibili ritracciamenti.''"

definition fibo_fb ::
  "real option \<Rightarrow> report \<Rightarrow> real \<Rightarrow> string list \<Rightarrow> error + (real \<times> string list)" where
  "fibo_fb current_price report score warnings =
     (let fibo_levels = map snd (fibonacci (supporti report))
      in case py_min fibo_levels of
           Inl e \<Rightarrow> Inl e
         | Inr min_support \<Rightarrow>
          (case py_max fibo_levels of
             Inl e \<Rightarrow> Inl e
           | Inr max_resistance \<Rightarrow>
              (let current_price =
                     (case current_price of
                        None \<Rightarrow> base_case (montecarlo report)
                      | Some p \<Rightarrow> p)
               in if current_price \<le> min_support * 1.02 then
                    Inr (score + 1, warnings @ [near_support_warning])
                  else if current_price \<ge> max_resistance * 0.98 then
                    Inr (score, warnings @ [near_resistance_warning])
                  else Inr (score, warnings))))"

definition volume_confirmation_warning :: string where
  "volume_confirmation_warning = ''Volumi sopra la media: conferma di interesse sul mercato.''"

definition volume_weak_warning :: string where
  "volume_weak_warning = ''Volumi sotto la media: attenzione a segnali deboli.''"

definition volume_spike_warning :: string where
  "volume_spike_warning =
     ''Spike di volume recente: possibile fase di accumulazione/distribuzione.''"

definition volumes_fb :: "report \<Rightarrow> real \<Rightarrow> string list \<Rightarrow> real \<times> string list" where
  "volumes_fb report score warnings =
     (let vol_perc = sopra_media_perc (volumi report);
          vol_spike = spike_supporto_perc (volumi report);
          (score, warnings) =
            (if vol_perc > 10 then (score + 1, warnings @ [volume_confirmation_warning])
             else if vol_perc < - 10 then (score, warnings @ [volume_weak_warning])
             else (score, warnings))
      in if vol_spike > 20 then (score, warnings @ [volume_spike_warning])
         else (score, warnings))"

definition montecarlo_fb ::
  "(real \<Rightarrow> string) \<Rightarrow> report \<Rightarrow> real \<Rightarrow> string list \<Rightarrow> real \<times> string list" where
  "montecarlo_fb fmt report score warnings =
     (let prob = prob_Bx_gt_target (montecarlo report)
      in if prob > 60 then
           (score + 1,
            warnings @ [''Probabilit'' @ a_grave
               @ '' Monte Carlo di superare il target elevata: '' @ fmt prob @ ''%.''])
         else if prob < 30 then
           (score,
            warnings @ [''Probabilit'' @ a_grave
               @ '' Monte Carlo di superare il target bassa: '' @ fmt prob @ ''%.''])
         else (score, warnings))"

definition favorable_feedback :: string where
  "favorable_feedback =
     ''Condizioni tecniche favorevoli: puoi considerare di entrare nel mercato.''"

definition mixed_feedback :: string where
  "mixed_feedback =
     ''Condizioni tecniche miste: valuta con cautela, potresti aspettare conferme.''"

definition unfavorable_feedback :: string where
  "unfavorable_feedback =
     ''Condizioni tecniche sfavorevoli: meglio evitare l'ingresso ora.''"

text \<open>The suggested actions are the Italian words \<open>entra\<close> (enter), \<open>aspetta\<close> (wait) and
  \<open>evita\<close> (avoid). The division raises on a zero \<open>max_score\<close>.\<close>

definition suggestion_fb :: "real \<Rightarrow> real \<Rightarrow> error + (string \<times> real \<times> string)" where
  "suggestion_fb max_score score =
     (if max_score = 0 then Inl ZeroDivisionError
      else
        (let score_norm_perc = (score / max_score) * 100
         in if score_norm_perc \<ge> 75 then
              Inr (favorable_feedback, score_norm_perc, ''entra'')
            else if score_norm_perc \<ge> 50 then
              Inr (mixed_feedback, score_norm_perc, ''aspetta'')
            else Inr (unfavorable_feedback, score_norm_perc, ''evita'')))"

record decision_result =
  score :: real
  max_score :: real
  feedback :: string
  warnings :: "string list"
  suggested_action :: string

definition ta_report_feedback ::
  "(real \<Rightarrow> string) \<Rightarrow> report \<Rightarrow> real option \<Rightarrow> error + decision_result" where
  "ta_report_feedback fmt report current_price =
     (let warnings = [];
          score = 0;
          max_score = 4;
          (score, warnings) = rsi_fb fmt report score warnings
      in case fibo_fb current_price report score warnings of
           Inl e \<Rightarrow> Inl e
         | Inr (score2, warnings2) \<Rightarrow>
            (let (score, warnings) = volumes_fb report score2 warnings2;
                 (score, warnings) = montecarlo_fb fmt report score warnings
             in case suggestion_fb max_score score of
                  Inl e \<Rightarrow> Inl e
                | Inr (fb, score_norm_perc, action) \<Rightarrow>
                    Inr \<lparr>score = py_round score 2, max_score = max_score,
                         feedback = fb, warnings = warnings,
                         suggested_action = action\<rparr>))"

section \<open>Slices\<close>

text \<open>\<open>xs[-n:]\<close> for an integer \<open>n\<close>: the last \<open>n\<close> elements when \<open>n\<close> is positive, the whole
  list when it is zero, and \<open>xs[k:]\<close> with \<open>k = - n\<close> when it is negative.\<close>

definition py_tail :: "'a list \<Rightarrow> int \<Rightarrow> 'a list" where
  "py_tail xs n =
     (if n > 0 then drop (length xs - nat n) xs else drop (nat (- n)) xs)"

text \<open>\<open>xs[a:b]\<close>: a negative index counts from the end, and both ends are clamped to the
  list.\<close>

definition py_index :: "nat \<Rightarrow> int \<Rightarrow> nat" where
  "py_index n i = (if i < 0 then nat (max (int n + i) 0) else min (nat i) n)"

definition py_slice :: "'a list \<Rightarrow> int \<Rightarrow> int \<Rightarrow> 'a list" where
  "py_slice xs a b =
     (let start = py_index (length xs) a; stop = py_index (length xs) b
      in take (stop - start) (drop start xs))"

section \<open>Support level analyzer (technical\_analysis.py)\<close>

text \<open>\<open>closes\<close> is the column of closing prices of the one ticker. The extrema of an empty
  window are NaN in pandas.\<close>

definition fibonacci_retracement :: "real list \<Rightarrow> int \<Rightarrow> error + (string \<times> real) list" where
  "fibonacci_retracement df_close lookback =
     (case py_tail df_close lookback of
        [] \<Rightarrow> Inl NonFinite
      | c # closes \<Rightarrow>
         (let max_price = fold max closes c;
              min_price = fold min closes c;
              diff = max_price - min_price
          in Inr [(''0.0%'', max_price),
                  (''23.6%'', max_price - 0.236 * diff),
                  (''38.2%'', max_price - 0.382 * diff),
                  (''50.0%'', max_price - 0.5 * diff),
                  (''61.8%'', max_price - 0.618 * diff),
                  (''78.6%'', max_price - 0.786 * diff),
                  (''100.0%'', min_price)]))"

section \<open>Momentum analyzer (technical\_analysis.py)\<close>

text \<open>
  The oscillator comes from the library call \<open>talib.RSI\<close>, which is not code of the
  repository: its output array is a parameter. The array starts with NaN entries (the
  first \<open>period\<close> positions), so an entry is a \<^typ>\<open>real option\<close> with \<open>None\<close> for NaN. The
  mean of no values, or of values with a NaN among them, is NaN; a comparison with NaN
  is false.

  \<open>df['close']\<close> is a frame of one column. On a frame of one row \<open>squeeze()\<close> gives a
  scalar, which has no \<open>to_numpy\<close>: the call raises \<open>AttributeError\<close> before the
  oscillator is computed.
\<close>

definition np_mean :: "real option list \<Rightarrow> real option" where
  "np_mean xs =
     (if xs = [] \<or> None \<in> set xs then None
      else Some (sum_list (map the xs) / real (length xs)))"

definition nan_sub :: "real option \<Rightarrow> real option \<Rightarrow> real option" where
  "nan_sub a b = (case (a, b) of (Some x, Some y) \<Rightarrow> Some (x - y) | _ \<Rightarrow> None)"

definition nan_less :: "real option \<Rightarrow> real option \<Rightarrow> bool" where
  "nan_less a b = (case (a, b) of (Some x, Some y) \<Rightarrow> x < y | _ \<Rightarrow> False)"

definition divergence_of :: "real option \<Rightarrow> real option \<Rightarrow> string" where
  "divergence_of price_trend rsi_trend =
     (if nan_less price_trend (Some 0) \<and> nan_less (Some 0) rsi_trend then ''positiva''
      else if nan_less (Some 0) price_trend \<and> nan_less rsi_trend (Some 0) then ''negativa''
      else ''nessuna'')"

definition rsi_analysis :: "real list \<Rightarrow> real option list \<Rightarrow> error + (real option \<times> string)" where
  "rsi_analysis df_close rsi_out =
     (let close_array = map Some df_close
      in if length df_close = 1 then Inl AttributeError
         else if rsi_out = [] then Inl IndexError
         else
          (let current_rsi = last rsi_out;
               price_trend = nan_sub (np_mean (py_tail close_array 5))
                                     (np_mean (py_slice close_array (- 10) (- 5)));
               rsi_trend = nan_sub (np_mean (py_tail rsi_out 5))
                                   (np_mean (py_slice rsi_out (- 10) (- 5)))
           in Inr (current_rsi, divergence_of price_trend rsi_trend)))"

text \<open>The trend of an array as \<open>rsi_analysis\<close> computes it, for the closes and for the
  oscillator alike: the mean of the last five entries less the mean of the five before
  them.\<close>

definition window_trend :: "real option list \<Rightarrow> real option" where
  "window_trend xs = nan_sub (np_mean (py_tail xs 5)) (np_mean (py_slice xs (- 10) (- 5)))"

section \<open>Stochastic forecaster (technical\_analysis.py)\<close>

text \<open>
  \<open>np.random.normal(mu, sigma)\<close> is \<open>mu + sigma * z\<close> for a standard normal draw \<open>z\<close>. The
  draws are an input of the model: \<open>z k\<close> is the \<open>k\<close>-th draw of the run, and the paths use
  them in the order of the two nested loops.
\<close>

definition series_mean :: "real list \<Rightarrow> real" where
  "series_mean xs = sum_list xs / real (length xs)"

text \<open>The sample standard deviation of pandas (one delta degree of freedom).\<close>

definition series_std :: "real list \<Rightarrow> real" where
  "series_std xs =
     sqrt (sum_list (map (\<lambda>x. (x - series_mean xs) ^ 2) xs) / real (length xs - 1))"

text \<open>\<open>np.isclose(a, b)\<close> with the default tolerances.\<close>

definition np_isclose :: "real \<Rightarrow> real \<Rightarrow> bool" where
  "np_isclose a b = (\<bar>a - b\<bar> \<le> 1 / 10 ^ 8 + 1 / 10 ^ 5 * \<bar>b\<bar>)"

text \<open>\<open>np.percentile(xs, q)\<close> with linear interpolation between the two nearest ranks, on
  a non-empty array.\<close>

definition np_percentile :: "real list \<Rightarrow> real \<Rightarrow> real" where
  "np_percentile xs q =
     (let a = sort xs;
          n = length a;
          h = real (n - 1) * q / 100;
          lo = nat \<lfloor>h\<rfloor>;
          hi = min (lo + 1) (n - 1)
      in a ! lo + (h - real lo) * (a ! hi - a ! lo))"

text \<open>The inner loop: \<open>days\<close> steps from \<open>price\<close>, starting at draw \<open>k\<close>.\<close>

fun simulate_path :: "real \<Rightarrow> real \<Rightarrow> (nat \<Rightarrow> real) \<Rightarrow> nat \<Rightarrow> nat \<Rightarrow> real \<Rightarrow> real" where
  "simulate_path mu sigma z k 0 price = price"
| "simulate_path mu sigma z k (Suc days) price =
     simulate_path mu sigma z (Suc k) days (price * exp (mu + sigma * z k))"

text \<open>
  The result is the tuple \<open>(prob, bull, base, bear, sigma)\<close>. A row \<open>(c, p)\<close> of
  \<open>rows\<close> is a close with the close before it; the first close has none and its row is
  dropped with the other NaN rows. The logarithm of \<open>c / p\<close> is NaN, and \<open>dropna\<close>
  removes it, when the quotient is negative or NaN (a zero close over a zero close); it
  is an infinity, and stays, when a close is zero after a non-zero one or positive after
  a zero one: then the mean is not finite. With fewer than two log-returns left the mean
  or the deviation is NaN, and with no simulation the mean of the outcomes is NaN.
\<close>

definition monte_carlo_forecast ::
  "real list \<Rightarrow> int \<Rightarrow> int \<Rightarrow> real \<Rightarrow> (nat \<Rightarrow> real)
     \<Rightarrow> error + (real \<times> real \<times> real \<times> real \<times> real)" where
  "monte_carlo_forecast df_close days n_sim target z =
     (let rows = zip (tl df_close) (butlast df_close);
          log_returns =
            map (\<lambda>(c, p). ln (c / p)) (filter (\<lambda>(c, p). p \<noteq> 0 \<and> 0 < c / p) rows)
      in if df_close = [] then Inl IndexError
         else if list_ex (\<lambda>(c, p). (p \<noteq> 0 \<and> c = 0) \<or> (p = 0 \<and> 0 < c)) rows
                 \<or> length log_returns < 2
         then Inl NonFinite
         else
       (let mu = series_mean log_returns;
            sigma = series_std log_returns;
            min_sigma = 1 / 10 ^ 4;
            sigma = (if sigma < min_sigma then min_sigma else sigma);
            S0 = last df_close
        in if np_isclose sigma 0 \<and> n_sim < 0 then
             Inl (ValueError ''negative dimensions are not allowed'')
           else
            (let results =
                   (if np_isclose sigma 0 then replicate (nat n_sim) S0
                    else map (\<lambda>i. simulate_path mu sigma z (i * nat days) (nat days) S0)
                             [0 ..< nat n_sim])
             in if results = [] then Inl NonFinite
                else
                 (let prob = real (length (filter (\<lambda>x. x > target) results))
                               / real (length results);
                      bull = np_percentile results 80;
                      base = np_percentile results 50;
                      bear = np_percentile results 20
                  in Inr (prob, bull, base, bear, sigma)))))"

section \<open>Deal evaluator (calculator.py)\<close>

text \<open>
  \<open>auto_ta_analysis\<close> downloads the price series, so its report is an input of the
  model, \<open>analysis_report\<close>; the symbol only selects the download. The scorer is called
  without a current price. The predicted price is a numpy float, so its division by a
  zero deal price gives an infinity or NaN instead of raising.
\<close>

record net_gain_result =
  investment_amount :: real
  apy :: real
  time_period :: real
  deal_price :: real
  interest_rate :: real
  interest :: real
  analysis_feedback :: decision_result
  breakeven_price :: real
  predicted_price :: real
  purchase_loss :: real
  net_gain :: real

definition calculate_net_gain ::
  "(real \<Rightarrow> string) \<Rightarrow> report \<Rightarrow> real \<Rightarrow> real \<Rightarrow> real \<Rightarrow> real \<Rightarrow> string
     \<Rightarrow> error + net_gain_result" where
  "calculate_net_gain fmt analysis_report =
     (\<lambda>s apy t deal symbol.
        let interest_rate = (apy / 100) * (t / 365);
            interest = s * interest_rate;
            breakeven_price = deal * (1 - interest_rate)
        in case ta_report_feedback fmt analysis_report None of
             Inl e \<Rightarrow> Inl e
           | Inr fb \<Rightarrow>
              (let predicted_price = base_case (montecarlo analysis_report)
               in if predicted_price \<le> deal \<and> deal = 0 then Inl NonFinite
                  else
                   (let purchase_loss =
                          (if predicted_price \<le> deal then s * (1 - predicted_price / deal)
                           else 0);
                        net_gain = interest - purchase_loss
                    in Inr \<lparr>investment_amount = s, apy = apy, time_period = t,
                            deal_price = deal, interest_rate = interest_rate,
                            interest = interest, analysis_feedback = fb,
                            breakeven_price = breakeven_price,
                            predicted_price = predicted_price,
                            purchase_loss = purchase_loss, net_gain = net_gain\<rparr>)))"

section \<open>Parameter validation (main.py)\<close>

text \<open>\<open>text.split(sep)\<close> for a one-character separator.\<close>

fun split_on :: "char \<Rightarrow> string \<Rightarrow> string list" where
  "split_on sep [] = [[]]"
| "split_on sep (x # xs) =
     (if x = sep then [] # split_on sep xs
      else (case split_on sep xs of
              [] \<Rightarrow> [[x]]
            | w # ws \<Rightarrow> (x # w) # ws))"

text \<open>
  \<open>process_parameters\<close> up to its call of \<open>calculate_net_gain\<close>: the result \<open>Inr\<close> holds the
  five arguments of that call, and \<open>Inl\<close> is the exception raised before it, which the
  handler answers with an error message. \<open>py_int\<close> is the built-in \<open>int\<close> on a string,
  with the \<open>ValueError\<close> it raises on a string that is no integer literal.
\<close>

definition process_parameters ::
  "(string \<Rightarrow> error + int) \<Rightarrow> string \<Rightarrow> error + (int \<times> int \<times> int \<times> int \<times> string)" where
  "process_parameters py_int text =
     (let params = split_on CHR '','' text
      in if length params \<noteq> 5 then Inl (ValueError ''Numero errato di parametri'')
         else
          (case py_int (params ! 0) of Inl e \<Rightarrow> Inl e | Inr s \<Rightarrow>
           (case py_int (params ! 1) of Inl e \<Rightarrow> Inl e | Inr apy1 \<Rightarrow>
            (case py_int (params ! 2) of Inl e \<Rightarrow> Inl e | Inr t \<Rightarrow>
             (case py_int (params ! 3) of Inl e \<Rightarrow> Inl e | Inr deal \<Rightarrow>
               (let symbol = params ! 4
                in if s \<le> 0 \<or> apy1 \<le> 0 \<or> t \<le> 0 \<or> deal \<le> 0 \<or> length symbol < 3
                   then Inl (ValueError ''I parametri non sono validi'')
                   else Inr (s, apy1, t, deal, symbol)))))))"

section \<open>Concrete inputs\<close>

text \<open>A report as \<open>auto_ta_analysis\<close> builds it, from closes between 100 and 110: an
  oversold oscillator without divergence, volume above its average and a likely target.
  The forecast's base case sits on the lowest level.\<close>

definition sample_report :: report where
  "sample_report =
     \<lparr>supporti =
        \<lparr>fibonacci = [(''0.0%'', 110), (''23.6%'', 107.64), (''38.2%'', 106.18),
                      (''50.0%'', 105), (''61.8%'', 103.82), (''78.6%'', 102.14),
                      (''100.0%'', 100)],
         cluster_minimi = [100]\<rparr>,
      rsi = \<lparr>valore = 25, divergenza = ''nessuna''\<rparr>,
      volumi = \<lparr>sopra_media_perc = 15, spike_supporto_perc = 0\<rparr>,
      montecarlo =
        \<lparr>prob_Bx_gt_target = 70, bull_case = 105, base_case = 100, bear_case = 95,
         volatilita_giornaliera = 1\<rparr>\<rparr>"



text \<open>Ten closes with the oscillator over them: closes that fall while the oscillator
  rises, and closes that rise while the oscillator falls.\<close>

definition falling_closes :: "real list" where
  "falling_closes = [10, 10, 10, 10, 10, 9, 9, 9, 9, 9]"

definition rising_rsi :: "real option list" where
  "rising_rsi = [Some 40, Some 40, Some 40, Some 40, Some 40,
                 Some 45, Some 45, Some 45, Some 45, Some 45]"

definition rising_closes :: "real list" where
  "rising_closes = [9, 9, 9, 9, 9, 10, 10, 10, 10, 10]"

definition falling_rsi :: "real option list" where
  "falling_rsi = [Some 45, Some 45, Some 45, Some 45, Some 45,
                  Some 40, Some 40, Some 40, Some 40, Some 40]"

text \<open>A formatter for the concrete runs: it prints nothing for the number.\<close>

definition no_digits :: "real \<Rightarrow> string" where
  "no_digits x = []"

text \<open>A report for a deal at 1800: closes between 1700 and 1900, base case 1750.\<close>

definition eth_report :: report where
  "eth_report =
     \<lparr>supporti =
        \<lparr>fibonacci = [(''0.0%'', 1900), (''23.6%'', 1852.8), (''38.2%'', 1823.6),
                      (''50.0%'', 1800), (''61.8%'', 1776.4), (''78.6%'', 1742.8),
                      (''100.0%'', 1700)],
         cluster_minimi = [1700]\<rparr>,
      rsi = \<lparr>valore = 45, divergenza = ''negativa''\<rparr>,
      volumi = \<lparr>sopra_media_perc = - 15, spike_supporto_perc = 0\<rparr>,
      montecarlo =
        \<lparr>prob_Bx_gt_target = 35, bull_case = 1810, base_case = 1750, bear_case = 1690,
         volatilita_giornaliera = 2\<rparr>\<rparr>"

text \<open>The built-in \<open>int\<close> on the literals of the concrete runs.\<close>

definition sample_int :: "string \<Rightarrow> error + int" where
  "sample_int x =
     (if x = ''0'' then Inr 0
      else if x = ''3'' then Inr 3
      else if x = ''57'' then Inr 57
      else if x = ''1000'' then Inr 1000
      else if x = ''1800'' then Inr 1800
      else Inl (ValueError ''invalid literal for int() with base 10''))"

section \<open>Auxiliary facts\<close>

lemma round_half_even_of_int: "round_half_even (of_int k) = k"
  by (simp add: round_half_even_def)

lemma py_round_half: "py_round (of_int k / 2) 2 = of_int k / 2"
proof -
  have "(of_int k / 2 :: real) * 10 ^ 2 = of_int (50 * k)" by simp
  then have "round_half_even ((of_int k / 2) * 10 ^ 2) = 50 * k"
    using round_half_even_of_int[of "50 * k"] by simp
  then show ?thesis by (simp add: py_round_def)
qed

lemma rsi_fb_contribution: "fst (rsi_fb fmt r s ws) - s \<in> {0, 1 / 2, 1, 3 / 2}"
  by (simp add: rsi_fb_def Let_def)

lemma fibo_fb_contribution: "fibo_fb p r s ws = Inr (s', ws') \<Longrightarrow> s' - s \<in> {0, 1}"
  by (auto simp add: fibo_fb_def Let_def split: sum.splits if_splits)

lemma volumes_fb_contribution: "fst (volumes_fb r s ws) - s \<in> {0, 1}"
  by (simp add: volumes_fb_def Let_def)

lemma montecarlo_fb_contribution: "fst (montecarlo_fb fmt r s ws) - s \<in> {0, 1}"
  by (simp add: montecarlo_fb_def Let_def)

lemma suggestion_fb_percent:
  "suggestion_fb m s = Inr (fb, q, a) \<Longrightarrow> q = 100 * s / m"
  by (auto simp add: suggestion_fb_def Let_def split: if_splits)

text \<open>The scorer returns as soon as the report has a Fibonacci level.\<close>

lemma ta_report_feedback_returns:
  assumes "fibonacci (supporti r) \<noteq> []"
  shows "\<exists>d. ta_report_feedback fmt r p = Inr d"
proof -
  obtain x xs where "map snd (fibonacci (supporti r)) = x # xs"
    using assms by (cases "fibonacci (supporti r)") auto
  then show ?thesis
    by (simp add: ta_report_feedback_def fibo_fb_def suggestion_fb_def Let_def
          split: prod.splits)
qed

lemma ta_report_feedback_unrounded:
  assumes "ta_report_feedback fmt r p = Inr d"
  shows "\<exists>s1 ws1 s2 ws2 s3 ws3 s4 ws4 fb q a.
           rsi_fb fmt r 0 [] = (s1, ws1) \<and> fibo_fb p r s1 ws1 = Inr (s2, ws2) \<and>
           volumes_fb r s2 ws2 = (s3, ws3) \<and> montecarlo_fb fmt r s3 ws3 = (s4, ws4) \<and>
           suggestion_fb 4 s4 = Inr (fb, q, a) \<and>
           d = \<lparr>score = py_round s4 2, max_score = 4, feedback = fb, warnings = ws4,
                suggested_action = a\<rparr>"
  using assms
  by (auto simp add: ta_report_feedback_def Let_def split: prod.splits sum.splits)

lemma zero_or_one:
  assumes "x \<in> {0, 1 :: real}"
  obtains b :: nat where "x = real b" "b \<le> 1"
proof -
  from assms consider "x = 0" | "x = 1" by auto
  then show ?thesis
  proof cases
    case 1
    then show ?thesis using that[of 0] by simp
  next
    case 2
    then show ?thesis using that[of 1] by simp
  qed
qed

lemma half_steps:
  assumes "s1 \<in> {0, 1 / 2, 1, 3 / 2 :: real}"
      and "s2 - s1 \<in> {0, 1}" "s3 - s2 \<in> {0, 1}" "s4 - s3 \<in> {0, 1}"
  shows "\<exists>k::nat. k \<le> 9 \<and> s4 = real k / 2"
proof -
  obtain a :: nat where a: "s1 = real a / 2" "a \<le> 3"
  proof -
    from assms(1) consider "s1 = 0" | "s1 = 1 / 2" | "s1 = 1" | "s1 = 3 / 2" by auto
    then show ?thesis
    proof cases
      case 1
      then show ?thesis using that[of 0] by simp
    next
      case 2
      then show ?thesis using that[of 1] by simp
    next
      case 3
      then show ?thesis using that[of 2] by simp
    next
      case 4
      then show ?thesis using that[of 3] by simp
    qed
  qed
  obtain b :: nat where b: "s2 - s1 = real b" "b \<le> 1"
    using zero_or_one[OF assms(2)] by blast
  obtain c :: nat where c: "s3 - s2 = real c" "c \<le> 1"
    using zero_or_one[OF assms(3)] by blast
  obtain e :: nat where e: "s4 - s3 = real e" "e \<le> 1"
    using zero_or_one[OF assms(4)] by blast
  have "s4 = real (a + 2 * b + 2 * c + 2 * e) / 2"
    using a(1) b(1) c(1) e(1) by simp
  moreover have "a + 2 * b + 2 * c + 2 * e \<le> 9"
    using a(2) b(2) c(2) e(2) by simp
  ultimately show ?thesis by blast
qed

text \<open>The sum of the four contributions is a number of halves, at most nine of them,
  and rounding to two decimals leaves it as it is.\<close>

lemma ta_report_feedback_halves:
  assumes "ta_report_feedback fmt r p = Inr d"
  shows "\<exists>(k::nat) ws fb q a.
           k \<le> 9 \<and> suggestion_fb 4 (real k / 2) = Inr (fb, q, a) \<and>
           d = \<lparr>score = real k / 2, max_score = 4, feedback = fb, warnings = ws,
                suggested_action = a\<rparr>"
proof -
  from ta_report_feedback_unrounded[OF assms]
  obtain s1 ws1 s2 ws2 s3 ws3 s4 ws4 fb q a where
    h: "rsi_fb fmt r 0 [] = (s1, ws1)" "fibo_fb p r s1 ws1 = Inr (s2, ws2)"
       "volumes_fb r s2 ws2 = (s3, ws3)" "montecarlo_fb fmt r s3 ws3 = (s4, ws4)"
       "suggestion_fb 4 s4 = Inr (fb, q, a)"
       "d = \<lparr>score = py_round s4 2, max_score = 4, feedback = fb, warnings = ws4,
             suggested_action = a\<rparr>"
    by blast
  have 1: "s1 \<in> {0, 1 / 2, 1, 3 / 2}"
    using rsi_fb_contribution[of fmt r 0 "[]"] h(1) by simp
  have 2: "s2 - s1 \<in> {0, 1}"
    using fibo_fb_contribution[OF h(2)] .
  have 3: "s3 - s2 \<in> {0, 1}"
    using volumes_fb_contribution[of r s2 ws2] h(3) by simp
  have 4: "s4 - s3 \<in> {0, 1}"
    using montecarlo_fb_contribution[of fmt r s3 ws3] h(4) by simp
  from half_steps[OF 1 2 3 4] obtain k :: nat where k: "k \<le> 9" "s4 = real k / 2"
    by blast
  have r: "py_round s4 2 = real k / 2"
    unfolding k(2) using py_round_half[of "int k"] by simp
  have "suggestion_fb 4 (real k / 2) = Inr (fb, q, a)"
    using h(5) unfolding k(2) .
  moreover have "d = \<lparr>score = real k / 2, max_score = 4, feedback = fb, warnings = ws4,
                      suggested_action = a\<rparr>"
    using h(6) unfolding r .
  ultimately show ?thesis using k(1) by blast
qed

lemma py_tail_nonempty:
  assumes "xs \<noteq> []" "0 \<le> n"
  shows "py_tail xs n \<noteq> []"
proof (cases "n > 0")
  case True
  have "0 < length xs" using assms(1) by simp
  moreover have "0 < nat n" using True by simp
  ultimately have "length xs - nat n < length xs" by arith
  then show ?thesis using True by (simp add: py_tail_def)
next
  case False
  then have "n = 0" using assms(2) by simp
  then show ?thesis using assms(1) by (simp add: py_tail_def)
qed

lemma fold_max_Max: "fold max cs (c::real) = Max (set (c # cs))"
  by (simp only: Max.set_eq_fold)

lemma fold_min_Min: "fold min cs (c::real) = Min (set (c # cs))"
  by (simp only: Min.set_eq_fold)

text \<open>The floor on \<open>sigma\<close> comes before the test for a zero \<open>sigma\<close>, so the test never
  succeeds and the branch of constant outcomes is never taken.\<close>

lemma sigma_floor_not_close:
  "\<not> np_isclose (if sigma < 1 / 10 ^ 4 then 1 / 10 ^ 4 else sigma) 0"
  by (simp add: np_isclose_def)

lemma butlast_replicate_eq: "butlast (replicate n c) = replicate (n - 1) c"
  by (simp add: butlast_conv_take)

lemma series_mean_zero: "series_mean (replicate k 0) = 0"
  by (simp add: series_mean_def sum_list_replicate)

lemma series_std_zero: "series_std (replicate k 0) = 0"
  by (simp add: series_std_def series_mean_zero sum_list_replicate)

text \<open>A path multiplies the starting price by the exponential of the sum of its steps.\<close>

lemma simulate_path_exp:
  "simulate_path mu sigma z k days price
     = price * exp (\<Sum>j<days. mu + sigma * z (k + j))"
proof (induction days arbitrary: k price)
  case 0
  then show ?case by simp
next
  case (Suc days)
  have shift: "(\<Sum>j<Suc days. mu + sigma * z (k + j))
                 = (mu + sigma * z k) + (\<Sum>j<days. mu + sigma * z (Suc k + j))"
    using sum.lessThan_Suc_shift[of "\<lambda>j. mu + sigma * z (k + j)" days]
    by (simp del: sum.lessThan_Suc)
  have "simulate_path mu sigma z k (Suc days) price
          = simulate_path mu sigma z (Suc k) days (price * exp (mu + sigma * z k))"
    by simp
  also have "\<dots> = price * exp (mu + sigma * z k)
                      * exp (\<Sum>j<days. mu + sigma * z (Suc k + j))"
    by (rule Suc.IH)
  also have "\<dots> = price * exp ((mu + sigma * z k)
                                + (\<Sum>j<days. mu + sigma * z (Suc k + j)))"
    by (simp only: exp_add mult.assoc)
  also have "\<dots> = price * exp (\<Sum>j<Suc days. mu + sigma * z (k + j))"
    by (simp only: shift)
  finally show ?case .
qed

text \<open>
  On a series of at least three equal positive closes the log-returns are all zero, so
  \<open>mu\<close> is 0 and the deviation is 0, which the floor lifts to \<open>1e-4\<close>: the outcomes
  are simulated with that \<open>sigma\<close>, and the forecaster returns it.
\<close>

lemma constant_series_forecast:
  assumes "0 < c" "3 \<le> n" "0 < n_sim"
  shows "monte_carlo_forecast (replicate n c) days n_sim target z =
           (let results =
                  map (\<lambda>i. simulate_path 0 (1 / 10 ^ 4) z (i * nat days) (nat days) c)
                      [0 ..< nat n_sim]
            in Inr (real (length (filter (\<lambda>x. x > target) results))
                      / real (length results),
                    np_percentile results 80, np_percentile results 50,
                    np_percentile results 20, 1 / 10 ^ 4))"
proof -
  have c: "c \<noteq> 0"
    using assms(1) by simp
  have rows: "zip (tl (replicate n c)) (butlast (replicate n c)) = replicate (n - 1) (c, c)"
    by (simp add: butlast_replicate_eq zip_replicate)
  have kept: "filter (\<lambda>(c, p). p \<noteq> 0 \<and> 0 < c / p) (replicate (n - 1) (c, c))
                = replicate (n - 1) (c, c)"
    using c by simp
  have returns: "map (\<lambda>(c, p). ln (c / p)) (replicate (n - 1) (c, c))
                   = replicate (n - 1) 0"
    using c by simp
  have finite: "\<not> list_ex (\<lambda>(c, p). (p \<noteq> 0 \<and> c = 0) \<or> (p = 0 \<and> 0 < c))
                     (replicate (n - 1) (c, c))"
    using c by (simp add: list_ex_iff)
  have ne: "replicate n c \<noteq> []"
    using assms(2) by auto
  have len: "\<not> n - 1 < 2"
    using assms(2) by simp
  have last: "last (replicate n c) = c"
    using assms(2) by (cases n) simp_all
  have nonempty: "[0 ..< nat n_sim] \<noteq> []"
    using assms(3) by simp
  show ?thesis
    unfolding monte_carlo_forecast_def rows kept returns Let_def
    using ne finite len nonempty
    by (simp add: series_mean_zero series_std_zero np_isclose_def last)
qed

text \<open>\<open>rsi_analysis\<close> classifies the two trends of its arrays.\<close>

lemma rsi_analysis_returns:
  assumes "length df_close \<noteq> 1" "rsi_out \<noteq> []"
  shows "rsi_analysis df_close rsi_out =
           Inr (last rsi_out,
                divergence_of (window_trend (map Some df_close)) (window_trend rsi_out))"
  using assms by (simp add: rsi_analysis_def window_trend_def Let_def)

lemma divergence_of_cases:
  "(divergence_of (Some pt) (Some rt) = ''positiva'' \<longleftrightarrow> pt < 0 \<and> 0 < rt) \<and>
   (divergence_of (Some pt) (Some rt) = ''negativa'' \<longleftrightarrow> pt > 0 \<and> 0 > rt) \<and>
   (divergence_of (Some (- pt)) (Some (- rt)) = ''positiva''
      \<longleftrightarrow> divergence_of (Some pt) (Some rt) = ''negativa'') \<and>
   (divergence_of (Some (- pt)) (Some (- rt)) = ''negativa''
      \<longleftrightarrow> divergence_of (Some pt) (Some rt) = ''positiva'') \<and>
   ((pt = 0 \<and> rt = 0) \<or> (0 < pt \<and> 0 < rt) \<or> (pt < 0 \<and> rt < 0)
      \<longrightarrow> divergence_of (Some pt) (Some rt) = ''nessuna'')"
  by (auto simp add: divergence_of_def nan_less_def)

lemma window_trend_samples:
  "window_trend (map Some falling_closes) = Some (- 1)"
  "window_trend rising_rsi = Some 5"
  "window_trend (map Some rising_closes) = Some 1"
  "window_trend falling_rsi = Some (- 5)"
  by (simp_all add: window_trend_def np_mean_def nan_sub_def py_tail_def py_slice_def
        py_index_def falling_closes_def rising_rsi_def rising_closes_def falling_rsi_def)

section \<open>The score and its bound\<close>

text \<open>
  Claim C1 (the score of every decision result lies between 0 and \<open>max_score\<close>, which is
  4, the oversold bonus included). The scorer breaks the bound: on \<open>sample_report\<close>
  all four filters add their point and the oversold oscillator adds its half, so the
  result has score 4.5 over a \<open>max_score\<close> of 4.
\<close>

theorem score_exceeds_max_score:
  "(case ta_report_feedback no_digits sample_report None of
      Inl e \<Rightarrow> False
    | Inr d \<Rightarrow> score d = 9 / 2 \<and> max_score d = 4 \<and> max_score d < score d
               \<and> suggested_action d = ''entra'')"
  using py_round_half[of 9]
  by (simp add: ta_report_feedback_def rsi_fb_def fibo_fb_def volumes_fb_def
        montecarlo_fb_def suggestion_fb_def sample_report_def)

text \<open>
  Claim C10 (every filter only ever increases the score, by 0, 0.5, 1 or 1.5; the final
  score is a non-negative multiple of 0.5 and never exceeds 4.5). The support filter
  is the one that can raise instead of returning; so can the scorer, through it.
\<close>

theorem filter_contributions:
  "fst (rsi_fb fmt r s ws) - s \<in> {0, 1 / 2, 1, 3 / 2} \<and>
   (\<forall>s' ws'. fibo_fb p r s ws = Inr (s', ws') \<longrightarrow> s' - s \<in> {0, 1 / 2, 1, 3 / 2}) \<and>
   fst (volumes_fb r s ws) - s \<in> {0, 1 / 2, 1, 3 / 2} \<and>
   fst (montecarlo_fb fmt r s ws) - s \<in> {0, 1 / 2, 1, 3 / 2} \<and>
   (\<forall>d. ta_report_feedback fmt r p = Inr d \<longrightarrow>
        (\<exists>k::nat. score d = real k / 2) \<and> 0 \<le> score d \<and> score d \<le> 9 / 2)"
proof -
  have fibo: "s' - s \<in> {0, 1 / 2, 1, 3 / 2}" if "fibo_fb p r s ws = Inr (s', ws')" for s' ws'
    using fibo_fb_contribution[OF that] by auto
  have vol: "fst (volumes_fb r s ws) - s \<in> {0, 1 / 2, 1, 3 / 2}"
    using volumes_fb_contribution[of r s ws] by auto
  have mc: "fst (montecarlo_fb fmt r s ws) - s \<in> {0, 1 / 2, 1, 3 / 2}"
    using montecarlo_fb_contribution[of fmt r s ws] by auto
  have total: "(\<exists>k::nat. score d = real k / 2) \<and> 0 \<le> score d \<and> score d \<le> 9 / 2"
    if "ta_report_feedback fmt r p = Inr d" for d
  proof -
    from ta_report_feedback_halves[OF that] obtain k :: nat where
      k: "k \<le> 9" "score d = real k / 2"
      by auto
    have "real k \<le> 9" using k(1) by simp
    then show ?thesis using k(2) by auto
  qed
  show ?thesis using rsi_fb_contribution[of fmt r s ws] fibo vol mc total by blast
qed

theorem filter_contributions_witness:
  "fibo_fb None sample_report 0 [] = Inr (1, [near_support_warning]) \<and>
   (1 :: real) - 0 \<in> {0, 1 / 2, 1, 3 / 2} \<and>
   (case ta_report_feedback no_digits sample_report None of
      Inl e \<Rightarrow> False
    | Inr d \<Rightarrow> (\<exists>k::nat. score d = real k / 2) \<and> 0 \<le> score d \<and> score d \<le> 9 / 2)"
proof -
  have "fibonacci (supporti sample_report) \<noteq> []"
    by (simp add: sample_report_def)
  then obtain d where d: "ta_report_feedback no_digits sample_report None = Inr d"
    using ta_report_feedback_returns by blast
  have f: "fibo_fb None sample_report 0 [] = Inr (1, [near_support_warning])"
    by (simp add: fibo_fb_def sample_report_def)
  show ?thesis
    using filter_contributions[of no_digits sample_report 0 "[]" None] d f by simp
qed

section \<open>The support-proximity filter on a degenerate range\<close>




section \<open>The suggested action\<close>

text \<open>
  Claim C4 (the suggested action is a function of \<open>percent = 100 * score / max_score\<close>
  with inclusive lower boundaries: \<open>percent \<ge> 75\<close> gives "enter" with the favourable
  feedback, \<open>50 \<le> percent < 75\<close> gives "wait" with the mixed feedback, \<open>percent < 50\<close>
  gives "avoid" with the unfavourable feedback; 75 gives "enter" and 50 gives "wait").
  The last part says that the action and the feedback of a decision result are those
  of its own score and \<open>max_score\<close>.
\<close>

theorem suggestion_fb_thresholds:
  assumes "m \<noteq> 0"
  shows "(100 * s / m \<ge> 75 \<longrightarrow>
            suggestion_fb m s = Inr (favorable_feedback, 100 * s / m, ''entra'')) \<and>
         (50 \<le> 100 * s / m \<and> 100 * s / m < 75 \<longrightarrow>
            suggestion_fb m s = Inr (mixed_feedback, 100 * s / m, ''aspetta'')) \<and>
         (100 * s / m < 50 \<longrightarrow>
            suggestion_fb m s = Inr (unfavorable_feedback, 100 * s / m, ''evita'')) \<and>
         (100 * s / m = 75 \<longrightarrow>
            suggestion_fb m s = Inr (favorable_feedback, 75, ''entra'')) \<and>
         (100 * s / m = 50 \<longrightarrow>
            suggestion_fb m s = Inr (mixed_feedback, 50, ''aspetta'')) \<and>
         (\<forall>d. ta_report_feedback fmt r p = Inr d \<longrightarrow>
            suggestion_fb (max_score d) (score d) =
              Inr (feedback d, 100 * score d / max_score d, suggested_action d))"
proof -
  have e: "s / m * 100 = 100 * s / m" by simp
  have "suggestion_fb m s =
          (if 100 * s / m \<ge> 75 then Inr (favorable_feedback, 100 * s / m, ''entra'')
           else if 100 * s / m \<ge> 50 then Inr (mixed_feedback, 100 * s / m, ''aspetta'')
           else Inr (unfavorable_feedback, 100 * s / m, ''evita''))"
    using assms unfolding suggestion_fb_def Let_def e by simp
  then have first: "(100 * s / m \<ge> 75 \<longrightarrow>
            suggestion_fb m s = Inr (favorable_feedback, 100 * s / m, ''entra'')) \<and>
         (50 \<le> 100 * s / m \<and> 100 * s / m < 75 \<longrightarrow>
            suggestion_fb m s = Inr (mixed_feedback, 100 * s / m, ''aspetta'')) \<and>
         (100 * s / m < 50 \<longrightarrow>
            suggestion_fb m s = Inr (unfavorable_feedback, 100 * s / m, ''evita'')) \<and>
         (100 * s / m = 75 \<longrightarrow>
            suggestion_fb m s = Inr (favorable_feedback, 75, ''entra'')) \<and>
         (100 * s / m = 50 \<longrightarrow>
            suggestion_fb m s = Inr (mixed_feedback, 50, ''aspetta''))"
    by auto
  have second: "suggestion_fb (max_score d) (score d) =
                  Inr (feedback d, 100 * score d / max_score d, suggested_action d)"
    if "ta_report_feedback fmt r p = Inr d" for d
  proof -
    from ta_report_feedback_halves[OF that] obtain k :: nat and ws' fb q a where
      h: "suggestion_fb 4 (real k / 2) = Inr (fb, q, a)"
         "d = \<lparr>score = real k / 2, max_score = 4, feedback = fb, warnings = ws',
               suggested_action = a\<rparr>"
      by blast
    have "q = 100 * (real k / 2) / 4"
      using suggestion_fb_percent[OF h(1)] .
    then show ?thesis using h by simp
  qed
  show ?thesis using first second by blast
qed

theorem suggestion_fb_thresholds_witness:
  "(4 :: real) \<noteq> 0 \<and>
   suggestion_fb 4 3 = Inr (favorable_feedback, 75, ''entra'') \<and>
   suggestion_fb 4 2 = Inr (mixed_feedback, 50, ''aspetta'') \<and>
   suggestion_fb 4 (3 / 2) = Inr (unfavorable_feedback, 75 / 2, ''evita'')"
  using suggestion_fb_thresholds[of 4 3 no_digits sample_report None]
        suggestion_fb_thresholds[of 4 2 no_digits sample_report None]
        suggestion_fb_thresholds[of 4 "3 / 2" no_digits sample_report None]
  by simp

section \<open>The volume filter\<close>

text \<open>
  Claim C8 (with \<open>sopra_media_perc = 15\<close> and a spike of at most 20 the volume filter adds
  exactly 1 and appends exactly one warning, the confirmation; with \<open>- 15\<close> it adds
  nothing and appends exactly one warning, the weak signal).
\<close>

theorem volumes_fb_fifteen:
  "(sopra_media_perc (volumi r) = 15 \<and> spike_supporto_perc (volumi r) \<le> 20 \<longrightarrow>
      volumes_fb r s ws = (s + 1, ws @ [volume_confirmation_warning])) \<and>
   (sopra_media_perc (volumi r) = - 15 \<and> spike_supporto_perc (volumi r) \<le> 20 \<longrightarrow>
      volumes_fb r s ws = (s, ws @ [volume_weak_warning]))"
  by (simp add: volumes_fb_def Let_def)

theorem volumes_fb_fifteen_witness:
  "sopra_media_perc (volumi sample_report) = 15 \<and>
   spike_supporto_perc (volumi sample_report) \<le> 20 \<and>
   volumes_fb sample_report 0 [] = (1, [volume_confirmation_warning]) \<and>
   sopra_media_perc (volumi eth_report) = - 15 \<and>
   spike_supporto_perc (volumi eth_report) \<le> 20 \<and>
   volumes_fb eth_report 0 [] = (0, [volume_weak_warning])"
  using volumes_fb_fifteen[of sample_report 0 "[]"] volumes_fb_fifteen[of eth_report 0 "[]"]
  by (simp add: sample_report_def eth_report_def)

section \<open>The forecaster on a constant series\<close>

text \<open>
  Claim C3 (on a series whose closes all equal \<open>S0\<close>, every simulated terminal price is
  exactly \<open>S0\<close>, so bull, base and bear are \<open>S0\<close>, and the probability is 100 when \<open>S0\<close>
  exceeds the target and 0 otherwise). The forecaster does not do that: on three closes
  of 100, one path of one day with the standard normal draw 1 and the target 100, the
  returned \<open>sigma\<close> is the floor \<open>1e-4\<close>, the three scenarios are \<open>100 * exp 1e-4\<close>, above
  100, and the fraction of outcomes over the target is 1 although \<open>S0\<close> does not exceed
  it.
\<close>

theorem constant_series_not_constant_forecast:
  "monte_carlo_forecast [100, 100, 100] 1 1 100 (\<lambda>k. 1) =
     Inr (1, 100 * exp (1 / 10000), 100 * exp (1 / 10000), 100 * exp (1 / 10000),
          1 / 10000)
   \<and> (100 :: real) < 100 * exp (1 / 10000)"
  by (simp add: monte_carlo_forecast_def series_mean_def series_std_def np_isclose_def
        np_percentile_def Let_def)

section \<open>The Fibonacci levels\<close>

text \<open>
  Claim C5 (for every non-empty price series the 0.0% level is the highest close of the
  lookback window, the 100.0% level the lowest, and the seven levels do not increase
  along the ratios 0, .236, .382, .5, .618, .786, 1). The window \<open>closes[-lookback:]\<close>
  of a non-empty series is non-empty for every lookback that is not negative.
\<close>

theorem fibonacci_retracement_levels:
  assumes "df_close \<noteq> []" "0 \<le> lookback"
  shows "\<exists>l0 l1 l2 l3 l4 l5 l6.
           fibonacci_retracement df_close lookback =
             Inr [(''0.0%'', l0), (''23.6%'', l1), (''38.2%'', l2), (''50.0%'', l3),
                  (''61.8%'', l4), (''78.6%'', l5), (''100.0%'', l6)] \<and>
           l0 = Max (set (py_tail df_close lookback)) \<and>
           l6 = Min (set (py_tail df_close lookback)) \<and>
           l0 \<ge> l1 \<and> l1 \<ge> l2 \<and> l2 \<ge> l3 \<and> l3 \<ge> l4 \<and> l4 \<ge> l5 \<and> l5 \<ge> l6"
proof -
  obtain c cs where w: "py_tail df_close lookback = c # cs"
    using py_tail_nonempty[OF assms] by (cases "py_tail df_close lookback") auto
  define hi where "hi = fold max cs c"
  define lo where "lo = fold min cs c"
  have hi: "hi = Max (set (c # cs))"
    unfolding hi_def by (rule fold_max_Max)
  have lo: "lo = Min (set (c # cs))"
    unfolding lo_def by (rule fold_min_Min)
  have "Min (set (c # cs)) \<le> c"
    by (rule Min_le) simp_all
  moreover have "c \<le> Max (set (c # cs))"
    by (rule Max_ge) simp_all
  ultimately have le: "lo \<le> hi"
    unfolding hi lo by (rule order_trans)
  have "fibonacci_retracement df_close lookback =
          Inr [(''0.0%'', hi), (''23.6%'', hi - 0.236 * (hi - lo)),
               (''38.2%'', hi - 0.382 * (hi - lo)), (''50.0%'', hi - 0.5 * (hi - lo)),
               (''61.8%'', hi - 0.618 * (hi - lo)), (''78.6%'', hi - 0.786 * (hi - lo)),
               (''100.0%'', lo)]"
    by (simp add: fibonacci_retracement_def w Let_def hi_def lo_def)
  moreover have "hi \<ge> hi - 0.236 * (hi - lo)"
    using le by simp
  moreover have "hi - 0.236 * (hi - lo) \<ge> hi - 0.382 * (hi - lo)"
    using le by simp
  moreover have "hi - 0.382 * (hi - lo) \<ge> hi - 0.5 * (hi - lo)"
    using le by simp
  moreover have "hi - 0.5 * (hi - lo) \<ge> hi - 0.618 * (hi - lo)"
    using le by simp
  moreover have "hi - 0.618 * (hi - lo) \<ge> hi - 0.786 * (hi - lo)"
    using le by simp
  moreover have "hi - 0.786 * (hi - lo) \<ge> lo"
    using le by (simp add: field_simps)
  ultimately show ?thesis
    using hi lo w by simp
qed

theorem fibonacci_retracement_levels_witness:
  "[100, 110, 105 :: real] \<noteq> [] \<and> (0 :: int) \<le> 1440 \<and>
   fibonacci_retracement [100, 110, 105] 1440 =
     Inr [(''0.0%'', 110), (''23.6%'', 107.64), (''38.2%'', 106.18), (''50.0%'', 105),
          (''61.8%'', 103.82), (''78.6%'', 102.14), (''100.0%'', 100)] \<and>
   Max (set (py_tail [100, 110, 105 :: real] 1440)) = 110 \<and>
   Min (set (py_tail [100, 110, 105 :: real] 1440)) = 100"
  using fibonacci_retracement_levels[of "[100, 110, 105]" 1440]
  by (simp add: fibonacci_retracement_def py_tail_def)

section \<open>The divergence classification\<close>

text \<open>
  Claim C7 (the classification is "positive" exactly when the price trend is negative and
  the oscillator trend positive, "negative" exactly when the price trend is positive and
  the oscillator trend negative; negating both trends swaps the two; two zero trends or
  two trends of one sign give "none"). The strings are \<open>positiva\<close>, \<open>negativa\<close> and
  \<open>nessuna\<close>. The statement is about \<open>rsi_analysis\<close> on any closes and oscillator whose
  two trends are numbers \<open>pt\<close> and \<open>rt\<close>; the negated trends are those of any second
  input whose trends are \<open>- pt\<close> and \<open>- rt\<close>. A frame of one row and an empty oscillator
  make the function raise.
\<close>

theorem rsi_analysis_divergence:
  assumes "length df_close \<noteq> 1" "rsi_out \<noteq> []"
      and "window_trend (map Some df_close) = Some pt"
      and "window_trend rsi_out = Some rt"
  shows "\<exists>dv. rsi_analysis df_close rsi_out = Inr (last rsi_out, dv) \<and>
           (dv = ''positiva'' \<longleftrightarrow> pt < 0 \<and> 0 < rt) \<and>
           (dv = ''negativa'' \<longleftrightarrow> pt > 0 \<and> 0 > rt) \<and>
           ((pt = 0 \<and> rt = 0) \<or> (0 < pt \<and> 0 < rt) \<or> (pt < 0 \<and> rt < 0)
              \<longrightarrow> dv = ''nessuna'') \<and>
           (\<forall>df_close2 rsi_out2.
              length df_close2 \<noteq> 1 \<and> rsi_out2 \<noteq> [] \<and>
              window_trend (map Some df_close2) = Some (- pt) \<and>
              window_trend rsi_out2 = Some (- rt) \<longrightarrow>
              (\<exists>dv2. rsi_analysis df_close2 rsi_out2 = Inr (last rsi_out2, dv2) \<and>
                     (dv2 = ''positiva'' \<longleftrightarrow> dv = ''negativa'') \<and>
                     (dv2 = ''negativa'' \<longleftrightarrow> dv = ''positiva'')))"
proof -
  define dv where "dv = divergence_of (Some pt) (Some rt)"
  note d = divergence_of_cases[of pt rt, folded dv_def]
  have r: "rsi_analysis df_close rsi_out = Inr (last rsi_out, dv)"
    using rsi_analysis_returns[OF assms(1) assms(2)] assms(3) assms(4)
    by (simp add: dv_def)
  have c1: "dv = ''positiva'' \<longleftrightarrow> pt < 0 \<and> 0 < rt"
    using d by (elim conjE)
  have c2: "dv = ''negativa'' \<longleftrightarrow> pt > 0 \<and> 0 > rt"
    using d by (elim conjE)
  have c3: "(pt = 0 \<and> rt = 0) \<or> (0 < pt \<and> 0 < rt) \<or> (pt < 0 \<and> rt < 0)
              \<longrightarrow> dv = ''nessuna''"
    using d by (elim conjE)
  have s1: "divergence_of (Some (- pt)) (Some (- rt)) = ''positiva'' \<longleftrightarrow> dv = ''negativa''"
    using d by (elim conjE)
  have s2: "divergence_of (Some (- pt)) (Some (- rt)) = ''negativa'' \<longleftrightarrow> dv = ''positiva''"
    using d by (elim conjE)
  have swap: "\<forall>df_close2 rsi_out2.
                length df_close2 \<noteq> 1 \<and> rsi_out2 \<noteq> [] \<and>
                window_trend (map Some df_close2) = Some (- pt) \<and>
                window_trend rsi_out2 = Some (- rt) \<longrightarrow>
                (\<exists>dv2. rsi_analysis df_close2 rsi_out2 = Inr (last rsi_out2, dv2) \<and>
                       (dv2 = ''positiva'' \<longleftrightarrow> dv = ''negativa'') \<and>
                       (dv2 = ''negativa'' \<longleftrightarrow> dv = ''positiva''))"
  proof (intro allI impI, elim conjE)
    fix df_close2 :: "real list" and rsi_out2 :: "real option list"
    assume h: "length df_close2 \<noteq> 1" "rsi_out2 \<noteq> []"
              "window_trend (map Some df_close2) = Some (- pt)"
              "window_trend rsi_out2 = Some (- rt)"
    have e: "rsi_analysis df_close2 rsi_out2
               = Inr (last rsi_out2, divergence_of (Some (- pt)) (Some (- rt)))"
      using rsi_analysis_returns[OF h(1) h(2)] h(3) h(4) by simp
    show "\<exists>dv2. rsi_analysis df_close2 rsi_out2 = Inr (last rsi_out2, dv2) \<and>
                (dv2 = ''positiva'' \<longleftrightarrow> dv = ''negativa'') \<and>
                (dv2 = ''negativa'' \<longleftrightarrow> dv = ''positiva'')"
      by (rule exI[of _ "divergence_of (Some (- pt)) (Some (- rt))"])
         (intro conjI e s1 s2)
  qed
  show ?thesis
    by (rule exI[of _ dv]) (intro conjI r c1 c2 c3 swap)
qed

theorem rsi_analysis_divergence_witness:
  "length falling_closes \<noteq> 1 \<and> rising_rsi \<noteq> [] \<and>
   window_trend (map Some falling_closes) = Some (- 1) \<and>
   window_trend rising_rsi = Some 5 \<and>
   rsi_analysis falling_closes rising_rsi = Inr (Some 45, ''positiva'') \<and>
   length rising_closes \<noteq> 1 \<and> falling_rsi \<noteq> [] \<and>
   window_trend (map Some rising_closes) = Some (- (- 1)) \<and>
   window_trend falling_rsi = Some (- 5) \<and>
   rsi_analysis rising_closes falling_rsi = Inr (Some 40, ''negativa'') \<and>
   window_trend (map Some rising_closes) = Some 1 \<and>
   rsi_analysis rising_closes rising_rsi = Inr (Some 45, ''nessuna'')"
proof -
  have l1: "length falling_closes \<noteq> 1" by (simp add: falling_closes_def)
  have l2: "length rising_closes \<noteq> 1" by (simp add: rising_closes_def)
  have n1: "rising_rsi \<noteq> []" by (simp add: rising_rsi_def)
  have n2: "falling_rsi \<noteq> []" by (simp add: falling_rsi_def)
  have e1: "last rising_rsi = Some 45" by (simp add: rising_rsi_def)
  have e2: "last falling_rsi = Some 40" by (simp add: falling_rsi_def)
  have t2: "window_trend (map Some rising_closes) = Some (- (- 1))"
    using window_trend_samples(3) by simp
  from rsi_analysis_divergence[OF l1 n1 window_trend_samples(1) window_trend_samples(2)]
  obtain dv where
    dv: "rsi_analysis falling_closes rising_rsi = Inr (last rising_rsi, dv)"
        "dv = ''positiva'' \<longleftrightarrow> (- 1 :: real) < 0 \<and> (0 :: real) < 5"
        "\<forall>df_close2 rsi_out2.
           length df_close2 \<noteq> 1 \<and> rsi_out2 \<noteq> [] \<and>
           window_trend (map Some df_close2) = Some (- (- 1)) \<and>
           window_trend rsi_out2 = Some (- 5) \<longrightarrow>
           (\<exists>dv2. rsi_analysis df_close2 rsi_out2 = Inr (last rsi_out2, dv2) \<and>
                  (dv2 = ''positiva'' \<longleftrightarrow> dv = ''negativa'') \<and>
                  (dv2 = ''negativa'' \<longleftrightarrow> dv = ''positiva''))"
    by (elim exE conjE)
  have p: "dv = ''positiva''"
    using dv(2) by simp
  have "\<exists>dv2. rsi_analysis rising_closes falling_rsi = Inr (last falling_rsi, dv2) \<and>
              (dv2 = ''positiva'' \<longleftrightarrow> dv = ''negativa'') \<and>
              (dv2 = ''negativa'' \<longleftrightarrow> dv = ''positiva'')"
    using dv(3)[rule_format, of rising_closes falling_rsi] l2 n2 t2 window_trend_samples(4)
    by (simp only: simp_thms)
  then obtain dv2 where
    dv2: "rsi_analysis rising_closes falling_rsi = Inr (last falling_rsi, dv2)"
         "dv2 = ''negativa'' \<longleftrightarrow> dv = ''positiva''"
    by (elim exE conjE)
  have q: "dv2 = ''negativa''"
    using dv2(2) p by simp
  have r1: "rsi_analysis falling_closes rising_rsi = Inr (Some 45, ''positiva'')"
    using dv(1) unfolding e1 p .
  have r2: "rsi_analysis rising_closes falling_rsi = Inr (Some 40, ''negativa'')"
    using dv2(1) unfolding e2 q .
  from rsi_analysis_divergence[OF l2 n1 window_trend_samples(3) window_trend_samples(2)]
  obtain dv3 where
    dv3: "rsi_analysis rising_closes rising_rsi = Inr (last rising_rsi, dv3)"
         "((1 :: real) = 0 \<and> (5 :: real) = 0) \<or> ((0 :: real) < 1 \<and> (0 :: real) < 5)
            \<or> ((1 :: real) < 0 \<and> (5 :: real) < 0) \<longrightarrow> dv3 = ''nessuna''"
    by (elim exE conjE)
  have n: "dv3 = ''nessuna''"
    using dv3(2) by simp
  have r3: "rsi_analysis rising_closes rising_rsi = Inr (Some 45, ''nessuna'')"
    using dv3(1) unfolding e1 n .
  show ?thesis
    by (intro conjI l1 l2 n1 n2 t2 window_trend_samples(1) window_trend_samples(2)
          window_trend_samples(3) window_trend_samples(4) r1 r2 r3)
qed

section \<open>The deal evaluator\<close>

text \<open>
  Claim C6 (for a positive amount, rate, term and deal price and any predicted base case,
  the evaluator computes \<open>interest_rate = (apy / 100) * (t / 365)\<close>,
  \<open>interest = s * interest_rate\<close>, \<open>breakeven = deal * (1 - interest_rate)\<close>, a purchase
  loss of \<open>s * (1 - predicted / deal)\<close> when the predicted price is at most the deal
  price and of 0 otherwise, and \<open>net gain = interest - purchase loss\<close>; for 1000, 57, 3,
  1800 and a predicted 1750 it gives about 4.685, 1791.57, 27.78 and -23.10). The
  evaluator returns when the scorer does, that is on a report with a Fibonacci level;
  "about" is read as within 0.001 for the interest and within 0.01 for the prices.
\<close>

theorem calculate_net_gain_formulas:
  assumes "fibonacci (supporti rep) \<noteq> []" "0 < deal"
  shows "\<exists>res. calculate_net_gain fmt rep s a t deal symbol = Inr res \<and>
           interest_rate res = (a / 100) * (t / 365) \<and>
           interest res = s * interest_rate res \<and>
           breakeven_price res = deal * (1 - interest_rate res) \<and>
           predicted_price res = base_case (montecarlo rep) \<and>
           purchase_loss res =
             (if predicted_price res \<le> deal then s * (1 - predicted_price res / deal)
              else 0) \<and>
           net_gain res = interest res - purchase_loss res \<and>
           (s = 1000 \<and> a = 57 \<and> t = 3 \<and> deal = 1800
              \<and> base_case (montecarlo rep) = 1750 \<longrightarrow>
              \<bar>interest res - 4.685\<bar> < 0.001 \<and>
              \<bar>breakeven_price res - 1791.57\<bar> < 0.01 \<and>
              \<bar>purchase_loss res - 27.78\<bar> < 0.01 \<and>
              \<bar>net_gain res - (- 23.10)\<bar> < 0.01)"
proof -
  obtain d where d: "ta_report_feedback fmt rep None = Inr d"
    using ta_report_feedback_returns[OF assms(1)] by blast
  show ?thesis
    using assms(2) by (simp add: calculate_net_gain_def d Let_def)
qed

theorem calculate_net_gain_formulas_witness:
  "fibonacci (supporti eth_report) \<noteq> [] \<and> (0 :: real) < 1800 \<and>
   (case calculate_net_gain no_digits eth_report 1000 57 3 1800 ''ETH-USD'' of
      Inl e \<Rightarrow> False
    | Inr res \<Rightarrow>
        interest res = 342 / 73 \<and> breakeven_price res = 1800 - 1800 * 171 / 36500 \<and>
        predicted_price res = 1750 \<and> purchase_loss res = 250 / 9 \<and>
        net_gain res = 342 / 73 - 250 / 9)"
proof -
  have f: "fibonacci (supporti eth_report) \<noteq> []"
    by (simp add: eth_report_def)
  have b: "base_case (montecarlo eth_report) = 1750"
    by (simp add: eth_report_def)
  from calculate_net_gain_formulas[OF f, of 1800 no_digits 1000 57 3 "''ETH-USD''"]
  obtain res where
    r: "calculate_net_gain no_digits eth_report 1000 57 3 1800 ''ETH-USD'' = Inr res"
       "interest_rate res = (57 / 100) * (3 / 365)"
       "interest res = 1000 * interest_rate res"
       "breakeven_price res = 1800 * (1 - interest_rate res)"
       "predicted_price res = base_case (montecarlo eth_report)"
       "purchase_loss res =
          (if predicted_price res \<le> 1800 then 1000 * (1 - predicted_price res / 1800)
           else 0)"
       "net_gain res = interest res - purchase_loss res"
    by auto
  show ?thesis
    using f r b by simp
qed

section \<open>The validation of the deal parameters\<close>

text \<open>
  Claim C9 (validation rejects, before the computation, an amount of 0, a rate of 0, a
  term of 0, a deal price of 0 and a symbol of two characters, each on its own; the
  parameters are valid when the four numbers are positive and the symbol has at least
  three characters). The message is one of five fields that \<open>int\<close> has read; the
  rejection is the \<open>ValueError\<close> raised before \<open>calculate_net_gain\<close> is called.
\<close>

theorem process_parameters_rejects:
  assumes "split_on CHR '','' txt = [p0, p1, p2, p3, p4]"
      and "py_int p0 = Inr s" "py_int p1 = Inr a" "py_int p2 = Inr t"
      and "py_int p3 = Inr deal"
  shows "(s = 0 \<longrightarrow>
            process_parameters py_int txt = Inl (ValueError ''I parametri non sono validi'')) \<and>
         (a = 0 \<longrightarrow>
            process_parameters py_int txt = Inl (ValueError ''I parametri non sono validi'')) \<and>
         (t = 0 \<longrightarrow>
            process_parameters py_int txt = Inl (ValueError ''I parametri non sono validi'')) \<and>
         (deal = 0 \<longrightarrow>
            process_parameters py_int txt = Inl (ValueError ''I parametri non sono validi'')) \<and>
         (length p4 = 2 \<longrightarrow>
            process_parameters py_int txt = Inl (ValueError ''I parametri non sono validi'')) \<and>
         ((\<exists>v. process_parameters py_int txt = Inr v) \<longleftrightarrow>
            0 < s \<and> 0 < a \<and> 0 < t \<and> 0 < deal \<and> 3 \<le> length p4) \<and>
         (0 < s \<and> 0 < a \<and> 0 < t \<and> 0 < deal \<and> 3 \<le> length p4 \<longrightarrow>
            process_parameters py_int txt = Inr (s, a, t, deal, p4))"
  using assms by (auto simp add: process_parameters_def Let_def)

theorem process_parameters_rejects_witness:
  "split_on CHR '','' ''0,57,3,1800,ETH-USD'' = [''0'', ''57'', ''3'', ''1800'', ''ETH-USD''] \<and>
   sample_int ''0'' = Inr 0 \<and> sample_int ''57'' = Inr 57 \<and> sample_int ''3'' = Inr 3 \<and>
   sample_int ''1800'' = Inr 1800 \<and>
   process_parameters sample_int ''0,57,3,1800,ETH-USD''
     = Inl (ValueError ''I parametri non sono validi'') \<and>
   split_on CHR '','' ''1000,57,3,1800,ET'' = [''1000'', ''57'', ''3'', ''1800'', ''ET''] \<and>
   process_parameters sample_int ''1000,57,3,1800,ET''
     = Inl (ValueError ''I parametri non sono validi'') \<and>
   process_parameters sample_int ''1000,57,3,1800,ETH-USD''
     = Inr (1000, 57, 3, 1800, ''ETH-USD'')"
proof -
  have s1: "split_on CHR '','' ''0,57,3,1800,ETH-USD''
              = [''0'', ''57'', ''3'', ''1800'', ''ETH-USD'']"
    by simp
  have s2: "split_on CHR '','' ''1000,57,3,1800,ET'' = [''1000'', ''57'', ''3'', ''1800'', ''ET'']"
    by simp
  have s3: "split_on CHR '','' ''1000,57,3,1800,ETH-USD''
              = [''1000'', ''57'', ''3'', ''1800'', ''ETH-USD'']"
    by simp
  have i: "sample_int ''0'' = Inr 0" "sample_int ''57'' = Inr 57" "sample_int ''3'' = Inr 3"
          "sample_int ''1800'' = Inr 1800" "sample_int ''1000'' = Inr 1000"
    by (simp_all add: sample_int_def)
  show ?thesis
    using process_parameters_rejects[OF s1 i(1) i(2) i(3) i(4)]
          process_parameters_rejects[OF s2 i(5) i(2) i(3) i(4)]
          process_parameters_rejects[OF s3 i(5) i(2) i(3) i(4)] s1 s2 i
    by simp
qed

end
